theory Spec2Isabelle
  imports Complex_Main
begin

section \<open>JavaScript numbers\<close>

text \<open>
  A TypeScript \<open>number\<close> is an IEEE double. The inspection code never does arithmetic on
  measurements; it only compares them. A measurement is therefore modelled by its value:
  not-a-number, one of the two infinities, or a finite value (a real; the two zeros
  compare equal in JavaScript and are one value here). \<open>Number.parseFloat\<close>, which feeds
  the validators, can return every one of these.
\<close>

datatype jsnum = NaN | NegInf | Fin real | PosInf

text \<open>The relational operators \<open><\<close>, \<open>>\<close>, \<open><=\<close>, \<open>>=\<close>: every comparison with NaN is false.\<close>

fun js_lt :: "jsnum \<Rightarrow> jsnum \<Rightarrow> bool" where
  "js_lt NaN _ = False"
| "js_lt _ NaN = False"
| "js_lt NegInf NegInf = False"
| "js_lt NegInf _ = True"
| "js_lt PosInf _ = False"
| "js_lt (Fin a) NegInf = False"
| "js_lt (Fin a) (Fin b) = (a < b)"
| "js_lt (Fin a) PosInf = True"

definition js_gt :: "jsnum \<Rightarrow> jsnum \<Rightarrow> bool" where
  "js_gt a b = js_lt b a"

definition js_le :: "jsnum \<Rightarrow> jsnum \<Rightarrow> bool" where
  "js_le a b = (a \<noteq> NaN \<and> b \<noteq> NaN \<and> \<not> js_lt b a)"

definition js_ge :: "jsnum \<Rightarrow> jsnum \<Rightarrow> bool" where
  "js_ge a b = (a \<noteq> NaN \<and> b \<noteq> NaN \<and> \<not> js_lt a b)"

section \<open>Static spec validator: hooks/useInspection.ts\<close>

text \<open>The status union \<open>"pending" | "pass" | "fail"\<close>.\<close>

datatype inspection_status = Pending | Pass | Fail

text \<open>
  \<open>InspectionSpec\<close> of lib/data. The fields \<open>id\<close>, \<open>min\<close> and \<open>max\<close> carry the prefix
  \<open>spec_\<close>. Identifiers are the integers of the template list; they reach \<open>updateSpec\<close>
  only from the rows of that list.
\<close>

record InspectionSpec =
  spec_id :: int
  characteristic :: string
  tool :: string
  spec_min :: jsnum
  spec_max :: jsnum
  actual :: "jsnum option"
  status :: inspection_status

definition INITIAL_SPECS :: "InspectionSpec list" where
  "INITIAL_SPECS =
    [\<lparr>spec_id = 1, characteristic = ''Distancia'', tool = ''Vernier'',
       spec_min = Fin (47 / 100), spec_max = Fin (53 / 100), actual = None, status = Pending\<rparr>,
     \<lparr>spec_id = 2, characteristic = ''Radio'', tool = ''Vernier'',
       spec_min = Fin (22 / 100), spec_max = Fin (28 / 100), actual = None, status = Pending\<rparr>,
     \<lparr>spec_id = 3, characteristic = ''Diametro Hole'', tool = ''Pin Gauge'',
       spec_min = Fin (25 / 100), spec_max = Fin (31 / 100), actual = None, status = Pending\<rparr>,
     \<lparr>spec_id = 4, characteristic = ''Angulo'', tool = ''Protractor'',
       spec_min = Fin (445 / 10), spec_max = Fin (455 / 10), actual = None, status = Pending\<rparr>]"

definition calculateStatus :: "jsnum option \<Rightarrow> jsnum \<Rightarrow> jsnum \<Rightarrow> inspection_status" where
  "calculateStatus act mn mx =
     (case act of
        None \<Rightarrow> Pending
      | Some a \<Rightarrow> if js_ge a mn \<and> js_le a mx then Pass else Fail)"

text \<open>The state of the hook: the template it was called with and its three \<open>useState\<close> cells.\<close>

record inspection =
  initialSpecs :: "InspectionSpec list"
  specs :: "InspectionSpec list"
  lotReleased :: bool
  lotRejected :: bool

definition useInspection :: "InspectionSpec list \<Rightarrow> inspection" where
  "useInspection initial =
     \<lparr>initialSpecs = initial, specs = initial, lotReleased = False, lotRejected = False\<rparr>"

text \<open>The function \<open>updateSpec\<close> hands to \<open>setSpecs\<close>: a map over the previous list.\<close>

definition updateSpec_entry :: "int \<Rightarrow> jsnum option \<Rightarrow> InspectionSpec \<Rightarrow> InspectionSpec" where
  "updateSpec_entry i act spec =
     (if spec_id spec \<noteq> i then spec
      else spec\<lparr>actual := act,
                status := calculateStatus act (spec_min spec) (spec_max spec)\<rparr>)"

definition updateSpec :: "int \<Rightarrow> jsnum option \<Rightarrow> 'a inspection_scheme \<Rightarrow> 'a inspection_scheme" where
  "updateSpec i act s = s\<lparr>specs := map (updateSpec_entry i act) (specs s)\<rparr>"

definition resetSpecs :: "'a inspection_scheme \<Rightarrow> 'a inspection_scheme" where
  "resetSpecs s =
     s\<lparr>specs := map (\<lambda>spec. spec\<lparr>actual := None, status := Pending\<rparr>) (initialSpecs s),
       lotReleased := False,
       lotRejected := False\<rparr>"

text \<open>Derived values, recomputed from \<open>specs\<close> on every render.\<close>

definition passCount :: "'a inspection_scheme \<Rightarrow> nat" where
  "passCount s = length (filter (\<lambda>sp. status sp = Pass) (specs s))"

definition failCount :: "'a inspection_scheme \<Rightarrow> nat" where
  "failCount s = length (filter (\<lambda>sp. status sp = Fail) (specs s))"

definition pendingCount :: "'a inspection_scheme \<Rightarrow> nat" where
  "pendingCount s = length (filter (\<lambda>sp. status sp = Pending) (specs s))"

definition allPassed :: "'a inspection_scheme \<Rightarrow> bool" where
  "allPassed s = (passCount s = length (specs s) \<and> length (specs s) > 0)"

definition hasFailed :: "'a inspection_scheme \<Rightarrow> bool" where
  "hasFailed s = (failCount s > 0)"

text \<open>An entry whose status is the one \<open>calculateStatus\<close> gives for its own fields.\<close>

definition spec_consistent :: "InspectionSpec \<Rightarrow> bool" where
  "spec_consistent sp = (status sp = calculateStatus (actual sp) (spec_min sp) (spec_max sp))"

section \<open>Inspector view: components/dashboard/inspector-view\<close>

text \<open>
  The page's \<open>handleUpdateSpec\<close>, which the view receives as \<open>onUpdateSpec\<close>: the same map
  as the hook's \<open>updateSpec\<close>, with the status computed in place.
\<close>

definition handleUpdateSpec :: "int \<Rightarrow> jsnum option \<Rightarrow> 'a inspection_scheme \<Rightarrow> 'a inspection_scheme" where
  "handleUpdateSpec i act s =
     s\<lparr>specs := map (\<lambda>spec.
         if spec_id spec \<noteq> i then spec
         else (case act of
                 None \<Rightarrow> spec\<lparr>actual := None, status := Pending\<rparr>
               | Some a \<Rightarrow>
                   spec\<lparr>actual := act,
                        status := (if js_ge a (spec_min spec) \<and> js_le a (spec_max spec)
                                   then Pass else Fail)\<rparr>)) (specs s)\<rparr>"

text \<open>The local state \<open>confirmDialog\<close>, and the notifications sent through \<open>toast\<close>.\<close>

datatype dialog = Approve | Reject

datatype toast = ToastError string string | ToastSuccess string string

text \<open>
  The view works on the inspection state it is given and adds its own: the read-only
  flag, the dialog, the notifications shown so far, and the number of calls made to
  \<open>generateCertificatePDF\<close>.
\<close>

record inspector_view = inspection +
  isReadOnly :: bool
  confirmDialog :: "dialog option"
  toasts :: "toast list"
  certificateCalls :: nat

definition InspectorView :: "inspection \<Rightarrow> bool \<Rightarrow> inspector_view" where
  "InspectorView s ro =
     \<lparr>initialSpecs = initialSpecs s, specs = specs s,
      lotReleased = lotReleased s, lotRejected = lotRejected s,
      isReadOnly = ro, confirmDialog = None, toasts = [], certificateCalls = 0\<rparr>"

definition hasFailures :: "'a inspection_scheme \<Rightarrow> bool" where
  "hasFailures v = list_ex (\<lambda>s. status s = Fail) (specs v)"

definition allInspected :: "'a inspection_scheme \<Rightarrow> bool" where
  "allInspected v = list_all (\<lambda>s. actual s \<noteq> None) (specs v)"

definition allPass :: "'a inspection_scheme \<Rightarrow> bool" where
  "allPass v = (allInspected v \<and> \<not> hasFailures v)"

text \<open>\<open>Number.parseFloat\<close> is a built-in of the language and a parameter here.\<close>

definition handleActualChange ::
  "(string \<Rightarrow> jsnum) \<Rightarrow> int \<Rightarrow> string \<Rightarrow> inspector_view \<Rightarrow> inspector_view" where
  "handleActualChange parseFloat i val v =
     updateSpec i (if val = [] then None else Some (parseFloat val)) v"

definition failures_toast :: toast where
  "failures_toast = ToastError ''Cannot approve: there are out-of-tolerance readings''
     ''All dimensional inspections must pass before release.''"

definition incomplete_toast :: toast where
  "incomplete_toast = ToastError ''Cannot approve: not all characteristics inspected''
     ''Please enter actual readings for all characteristics.''"

definition approved_toast :: toast where
  "approved_toast = ToastSuccess ''Lot #296039 APPROVED for release''
     ''Certificate of Conformance generated and downloaded.''"

definition certificate_error_toast :: toast where
  "certificate_error_toast = ToastError ''Error generating certificate''
     ''Please try again or contact support.''"

definition rejected_toast :: toast where
  "rejected_toast = ToastError ''Lot #296039 REJECTED''
     ''Non-conformance report will be generated.''"

text \<open>
  \<open>handleApprove\<close>. The certificate generator is an external renderer; whether this
  call of it throws is the first argument.
\<close>

definition handleApprove :: "bool \<Rightarrow> inspector_view \<Rightarrow> inspector_view" where
  "handleApprove pdf_throws v =
     (if hasFailures v then
        v\<lparr>toasts := toasts v @ [failures_toast], confirmDialog := None\<rparr>
      else if \<not> allInspected v then
        v\<lparr>toasts := toasts v @ [incomplete_toast], confirmDialog := None\<rparr>
      else
        v\<lparr>certificateCalls := certificateCalls v + 1,
          toasts := toasts v @ [if pdf_throws then certificate_error_toast else approved_toast],
          lotReleased := True,
          confirmDialog := None\<rparr>)"

definition handleReject :: "inspector_view \<Rightarrow> inspector_view" where
  "handleReject v =
     v\<lparr>lotRejected := True, confirmDialog := None, toasts := toasts v @ [rejected_toast]\<rparr>"

text \<open>
  What the user can do, as the view renders it. The two verdict buttons exist only while
  neither flag is set; the dialog shows the confirm button of the verdict it was opened
  for; a reading can be typed only while its input is enabled. An event whose control is
  not rendered gives \<open>None\<close>. \<open>ResetSpecs\<close> is the hook's reset.
\<close>

datatype event =
    ClickApprove
  | ClickReject
  | ConfirmApproval bool
  | ConfirmRejection
  | CloseDialog
  | ActualChange int string
  | ResetSpecs

fun inspector_step :: "(string \<Rightarrow> jsnum) \<Rightarrow> event \<Rightarrow> inspector_view \<Rightarrow> inspector_view option" where
  "inspector_step pf ClickApprove v =
     (if lotReleased v \<or> lotRejected v then None else Some (v\<lparr>confirmDialog := Some Approve\<rparr>))"
| "inspector_step pf ClickReject v =
     (if lotReleased v \<or> lotRejected v then None else Some (v\<lparr>confirmDialog := Some Reject\<rparr>))"
| "inspector_step pf (ConfirmApproval pdf_throws) v =
     (if confirmDialog v = Some Approve then Some (handleApprove pdf_throws v) else None)"
| "inspector_step pf ConfirmRejection v =
     (if confirmDialog v = Some Reject then Some (handleReject v) else None)"
| "inspector_step pf CloseDialog v =
     (if confirmDialog v = None then None else Some (v\<lparr>confirmDialog := None\<rparr>))"
| "inspector_step pf (ActualChange i val) v =
     (if lotReleased v \<or> lotRejected v \<or> isReadOnly v then None
      else Some (handleActualChange pf i val v))"
| "inspector_step pf ResetSpecs v = Some (resetSpecs v)"

fun run :: "(string \<Rightarrow> jsnum) \<Rightarrow> event list \<Rightarrow> inspector_view \<Rightarrow> inspector_view option" where
  "run pf [] v = Some v"
| "run pf (e # es) v =
     (case inspector_step pf e v of None \<Rightarrow> None | Some v' \<Rightarrow> run pf es v')"

section \<open>Dynamic field validator: components/features/quality/DynamicInspectionForm\<close>

text \<open>A value of type \<open>number | boolean | string | null\<close>.\<close>

datatype jsval = JNull | JNum jsnum | JBool bool | JStr string

datatype field_type = Numeric | Boolean | Select

text \<open>
  Modelled from the spec: the declarations of \<open>FieldDefinition\<close> and \<open>InspectionValue\<close>
  in lib/data are not among the sources. The fields are those of the spec's data model
  and of the places where the form reads and builds them; an optional field is an
  \<open>option\<close>, \<open>None\<close> for \<open>undefined\<close>.
\<close>

record FieldDefinition =
  field_id :: string
  field_name :: string
  field_type :: field_type
  required :: bool
  field_min :: "jsnum option"
  field_max :: "jsnum option"
  options :: "string list option"
  field_tool :: "string option"

record InspectionValue =
  fieldId :: string
  fvalue :: jsval
  fstatus :: inspection_status

definition validateNumericField ::
  "jsnum option \<Rightarrow> jsnum option \<Rightarrow> jsnum option \<Rightarrow> inspection_status" where
  "validateNumericField v mn mx =
     (case v of
        None \<Rightarrow> Pending
      | Some x \<Rightarrow>
          if (case mn of None \<Rightarrow> False | Some lo \<Rightarrow> js_lt x lo) then Fail
          else if (case mx of None \<Rightarrow> False | Some hi \<Rightarrow> js_gt x hi) then Fail
          else Pass)"

definition validateBooleanField :: "bool option \<Rightarrow> inspection_status" where
  "validateBooleanField v =
     (case v of None \<Rightarrow> Pending | Some b \<Rightarrow> if b then Pass else Fail)"

text \<open>Truthiness of a \<open>string | null\<close>: null and the empty string are falsy.\<close>

definition truthy_string :: "string option \<Rightarrow> bool" where
  "truthy_string v = (case v of None \<Rightarrow> False | Some s \<Rightarrow> s \<noteq> [])"

definition validateSelectField :: "string option \<Rightarrow> bool \<Rightarrow> inspection_status" where
  "validateSelectField v req =
     (if req \<and> (\<not> truthy_string v \<or> v = Some []) then Pending
      else if truthy_string v then Pass else Pending)"

text \<open>
  The casts of \<open>updateValue\<close> do nothing at run time. Every call in \<open>renderInput\<close> passes a
  value of the field's own type, and there the functions below are the identity. For a
  value of another type they give what the validator would see of it: the numeric
  validator compares, so JavaScript converts the value to a number (the conversion of a
  string is a built-in and a parameter here); the other two test only for null and
  for truthiness, so any value of the same truthiness stands for it.
\<close>

definition js_truthy :: "jsval \<Rightarrow> bool" where
  "js_truthy v =
     (case v of
        JNull \<Rightarrow> False
      | JNum n \<Rightarrow> n \<noteq> NaN \<and> n \<noteq> Fin 0
      | JBool b \<Rightarrow> b
      | JStr s \<Rightarrow> s \<noteq> [])"

definition as_number :: "(string \<Rightarrow> jsnum) \<Rightarrow> jsval \<Rightarrow> jsnum option" where
  "as_number toNumber v =
     (case v of
        JNull \<Rightarrow> None
      | JNum n \<Rightarrow> Some n
      | JBool b \<Rightarrow> Some (Fin (if b then 1 else 0))
      | JStr s \<Rightarrow> Some (toNumber s))"

definition as_boolean :: "jsval \<Rightarrow> bool option" where
  "as_boolean v = (case v of JNull \<Rightarrow> None | _ \<Rightarrow> Some (js_truthy v))"

definition as_string :: "jsval \<Rightarrow> string option" where
  "as_string v =
     (case v of
        JNull \<Rightarrow> None
      | JStr s \<Rightarrow> Some s
      | _ \<Rightarrow> Some (if js_truthy v then ''true'' else []))"

text \<open>
  \<open>updateValue\<close>, as the list it passes to \<open>onValuesChange\<close>; \<open>values\<close> is the list the
  form was rendered with.
\<close>

definition updateValue ::
  "(string \<Rightarrow> jsnum) \<Rightarrow> string \<Rightarrow> jsval \<Rightarrow> FieldDefinition \<Rightarrow> InspectionValue list
     \<Rightarrow> InspectionValue list" where
  "updateValue toNumber fid newValue field vals =
     (let st = (case field_type field of
                  Numeric \<Rightarrow>
                    validateNumericField (as_number toNumber newValue)
                      (field_min field) (field_max field)
                | Boolean \<Rightarrow> validateBooleanField (as_boolean newValue)
                | Select \<Rightarrow> validateSelectField (as_string newValue) (required field));
          newValues = filter (\<lambda>v. fieldId v \<noteq> fid) vals
      in newValues @ [\<lparr>fieldId = fid, fvalue = newValue, fstatus = st\<rparr>])"

text \<open>
  \<open>useDynamicInspection\<close> starts from the empty list and stores each list the form hands
  back; a session is a sequence of edits, each a field identifier, the value entered and
  the field's definition.
\<close>

fun edits :: "(string \<Rightarrow> jsnum) \<Rightarrow> (string \<times> jsval \<times> FieldDefinition) list
     \<Rightarrow> InspectionValue list \<Rightarrow> InspectionValue list" where
  "edits toNumber [] vals = vals"
| "edits toNumber ((fid, newValue, field) # es) vals =
     edits toNumber es (updateValue toNumber fid newValue field vals)"

section \<open>Invariant of the lot disposition\<close>

text \<open>
  The two flags are never both set, and the dialog is open only while neither is.
\<close>

definition disposition_inv :: "inspector_view \<Rightarrow> bool" where
  "disposition_inv v =
     (\<not> (lotReleased v \<and> lotRejected v)
      \<and> (confirmDialog v = None \<or> (\<not> lotReleased v \<and> \<not> lotRejected v)))"

section \<open>Properties of the comparisons\<close>

lemma js_ge_le: "js_ge a b = js_le b a"
  by (auto simp: js_ge_def js_le_def)

lemma js_le_Fin [simp]: "js_le (Fin a) (Fin b) = (a \<le> b)"
  by (auto simp: js_le_def)

lemma js_ge_Fin [simp]: "js_ge (Fin a) (Fin b) = (b \<le> a)"
  by (auto simp: js_ge_def)

lemma js_le_NaN [simp]: "js_le NaN b = False" "js_le a NaN = False"
  by (simp_all add: js_le_def)

lemma js_ge_NaN [simp]: "js_ge NaN b = False" "js_ge a NaN = False"
  by (simp_all add: js_ge_def)

lemma js_lt_NaN_right [simp]: "js_lt a NaN = False"
  by (cases a) simp_all

lemma js_le_iff_not_lt: "a \<noteq> NaN \<Longrightarrow> b \<noteq> NaN \<Longrightarrow> js_le a b = (\<not> js_lt b a)"
  by (simp add: js_le_def)

lemma js_gt_NaN [simp]: "js_gt NaN b = False" "js_gt a NaN = False"
  by (simp_all add: js_gt_def)

lemma js_lt_iff_not_ge: "x \<noteq> NaN \<Longrightarrow> lo \<noteq> NaN \<Longrightarrow> js_lt x lo = (\<not> js_ge x lo)"
  by (simp add: js_ge_def)

lemma js_gt_iff_not_le: "x \<noteq> NaN \<Longrightarrow> hi \<noteq> NaN \<Longrightarrow> js_gt x hi = (\<not> js_le x hi)"
  by (simp add: js_le_def js_gt_def)

section \<open>Properties of the static validator\<close>

lemma updateSpec_entry_consistent:
  "spec_consistent sp \<Longrightarrow> spec_consistent (updateSpec_entry i act sp)"
  by (simp add: spec_consistent_def updateSpec_entry_def)

lemma updateSpec_consistent:
  "list_all spec_consistent (specs s) \<Longrightarrow> list_all spec_consistent (specs (updateSpec i act s))"
  by (simp add: updateSpec_def list_all_iff updateSpec_entry_consistent)

lemma resetSpecs_consistent: "list_all spec_consistent (specs (resetSpecs s))"
  by (simp add: resetSpecs_def list_all_iff spec_consistent_def calculateStatus_def)

lemma INITIAL_SPECS_consistent: "list_all spec_consistent INITIAL_SPECS"
  by (simp add: INITIAL_SPECS_def spec_consistent_def calculateStatus_def)

text \<open>
  C1. The status of a characteristic is Pending when the actual value is absent, Pass when
  \<open>min \<le> actual \<le> max\<close> with both bounds inclusive, and Fail otherwise (a NaN reading
  compares false and fails). The stored status is always this function of the entry's
  own \<open>actual\<close>, \<open>min\<close> and \<open>max\<close>: the hook's initial state on the shipped template has it,
  \<open>updateSpec\<close> keeps it and \<open>resetSpecs\<close> establishes it.
\<close>

theorem calculateStatus_spec:
  "calculateStatus None mn mx = Pending
   \<and> calculateStatus (Some a) mn mx = (if js_le mn a \<and> js_le a mx then Pass else Fail)
   \<and> calculateStatus (Some (Fin x)) (Fin lo) (Fin hi) = (if lo \<le> x \<and> x \<le> hi then Pass else Fail)
   \<and> list_all spec_consistent (specs (useInspection INITIAL_SPECS))
   \<and> (list_all spec_consistent (specs s) \<longrightarrow> list_all spec_consistent (specs (updateSpec i act s)))
   \<and> list_all spec_consistent (specs (resetSpecs s))"
proof -
  have "calculateStatus (Some a) mn mx = (if js_le mn a \<and> js_le a mx then Pass else Fail)"
    by (simp add: calculateStatus_def js_ge_le)
  moreover have "calculateStatus (Some (Fin x)) (Fin lo) (Fin hi)
      = (if lo \<le> x \<and> x \<le> hi then Pass else Fail)"
    by (simp add: calculateStatus_def)
  moreover have "list_all spec_consistent (specs (useInspection INITIAL_SPECS))"
    by (simp add: useInspection_def INITIAL_SPECS_consistent)
  ultimately show ?thesis
    using updateSpec_consistent [of s i act] resetSpecs_consistent [of s]
    by (simp add: calculateStatus_def)
qed

theorem calculateStatus_spec_witness:
  "list_all spec_consistent (specs (useInspection INITIAL_SPECS))
   \<and> list_all spec_consistent
       (specs (updateSpec 1 (Some (Fin (1 / 2))) (useInspection INITIAL_SPECS)))
   \<and> map status (specs (updateSpec 1 (Some (Fin (1 / 2))) (useInspection INITIAL_SPECS)))
       = [Pass, Pending, Pending, Pending]"
proof -
  have "map status (specs (updateSpec 1 (Some (Fin (1 / 2))) (useInspection INITIAL_SPECS)))
       = [Pass, Pending, Pending, Pending]"
    by (simp add: updateSpec_def updateSpec_entry_def useInspection_def INITIAL_SPECS_def
        calculateStatus_def)
  then show ?thesis
    using calculateStatus_spec [of "Fin 0" "Fin 0" "Fin 0" 0 0 0 "useInspection INITIAL_SPECS"
        1 "Some (Fin (1 / 2))"]
    by simp
qed

text \<open>
  C10. \<open>updateSpec(id, actual)\<close> keeps the length of the list, replaces exactly the
  entries whose id is \<open>id\<close> (new actual, recomputed status, everything else kept) and
  leaves every other entry as it was; with no entry of that id the whole state is
  returned unchanged. The function is total: there is no error case. The template and
  the two disposition flags are not touched.
\<close>

theorem updateSpec_frame:
  "length (specs (updateSpec i act s)) = length (specs s)
   \<and> (\<forall>k < length (specs s).
        specs (updateSpec i act s) ! k =
          (if spec_id (specs s ! k) = i
           then (specs s ! k)\<lparr>actual := act,
                  status := calculateStatus act (spec_min (specs s ! k)) (spec_max (specs s ! k))\<rparr>
           else specs s ! k))
   \<and> (i \<notin> spec_id ` set (specs s) \<longrightarrow> updateSpec i act s = s)
   \<and> initialSpecs (updateSpec i act s) = initialSpecs s
   \<and> lotReleased (updateSpec i act s) = lotReleased s
   \<and> lotRejected (updateSpec i act s) = lotRejected s"
proof -
  have "updateSpec i act s = s" if "i \<notin> spec_id ` set (specs s)"
  proof -
    have "map (updateSpec_entry i act) (specs s) = specs s"
      using that by (intro map_idI) (auto simp: updateSpec_entry_def)
    then show ?thesis by (simp add: updateSpec_def)
  qed
  then show ?thesis
    by (auto simp: updateSpec_def updateSpec_entry_def)
qed

theorem updateSpec_frame_witness:
  "map actual (specs (updateSpec 2 (Some (Fin (1 / 4))) (useInspection INITIAL_SPECS)))
     = [None, Some (Fin (1 / 4)), None, None]
   \<and> map status (specs (updateSpec 2 (Some (Fin (1 / 4))) (useInspection INITIAL_SPECS)))
     = [Pending, Pass, Pending, Pending]
   \<and> updateSpec 7 (Some (Fin (1 / 4))) (useInspection INITIAL_SPECS) = useInspection INITIAL_SPECS"
proof -
  let ?s = "useInspection INITIAL_SPECS"
  have "7 \<notin> spec_id ` set (specs ?s)"
    by (simp add: useInspection_def INITIAL_SPECS_def)
  with updateSpec_frame [of 7 "Some (Fin (1 / 4))" ?s]
  have a: "updateSpec 7 (Some (Fin (1 / 4))) ?s = ?s" by blast
  have "map actual (specs (updateSpec 2 (Some (Fin (1 / 4))) ?s))
      = [None, Some (Fin (1 / 4)), None, None]
    \<and> map status (specs (updateSpec 2 (Some (Fin (1 / 4))) ?s))
      = [Pending, Pass, Pending, Pending]"
    by (simp add: updateSpec_def updateSpec_entry_def useInspection_def INITIAL_SPECS_def
        calculateStatus_def)
  with a show ?thesis by blast
qed

text \<open>
  C8. \<open>resetSpecs()\<close> rebuilds the list from the template the hook was called with:
  every entry has no actual value and status Pending, and its other fields are the
  template's. The current list plays no part. Both disposition flags are cleared, and
  a second reset changes nothing.
\<close>

theorem resetSpecs_spec:
  "specs (resetSpecs s) = map (\<lambda>sp. sp\<lparr>actual := None, status := Pending\<rparr>) (initialSpecs s)
   \<and> list_all (\<lambda>sp. actual sp = None \<and> status sp = Pending) (specs (resetSpecs s))
   \<and> map (\<lambda>sp. (spec_id sp, characteristic sp, tool sp, spec_min sp, spec_max sp))
        (specs (resetSpecs s))
      = map (\<lambda>sp. (spec_id sp, characteristic sp, tool sp, spec_min sp, spec_max sp))
        (initialSpecs s)
   \<and> resetSpecs (s\<lparr>specs := xs\<rparr>) = resetSpecs s
   \<and> \<not> lotReleased (resetSpecs s) \<and> \<not> lotRejected (resetSpecs s)
   \<and> initialSpecs (resetSpecs s) = initialSpecs s
   \<and> resetSpecs (resetSpecs s) = resetSpecs s"
  by (simp add: resetSpecs_def list_all_iff)

section \<open>Properties of the inspector view\<close>

lemma handleUpdateSpec_eq: "handleUpdateSpec i act s = updateSpec i act s"
  by (cases act)
    (simp_all add: handleUpdateSpec_def updateSpec_def updateSpec_entry_def calculateStatus_def
      cong: map_cong)

lemma consistent_pending_iff:
  "spec_consistent sp \<Longrightarrow> (status sp = Pending) = (actual sp = None)"
  by (auto simp: spec_consistent_def calculateStatus_def split: option.splits)

lemma allInspected_iff_no_pending:
  "list_all spec_consistent (specs v) \<Longrightarrow>
   allInspected v = (\<not> list_ex (\<lambda>s. status s = Pending) (specs v))"
  by (auto simp: allInspected_def list_all_iff list_ex_iff consistent_pending_iff)

lemma handleApprove_failures:
  "hasFailures v \<Longrightarrow>
   handleApprove t v = v\<lparr>toasts := toasts v @ [failures_toast], confirmDialog := None\<rparr>"
  by (simp add: handleApprove_def)

lemma handleApprove_incomplete:
  "\<not> hasFailures v \<Longrightarrow> \<not> allInspected v \<Longrightarrow>
   handleApprove t v = v\<lparr>toasts := toasts v @ [incomplete_toast], confirmDialog := None\<rparr>"
  by (simp add: handleApprove_def)

lemma handleApprove_released:
  "lotReleased (handleApprove t v) = (lotReleased v \<or> (allInspected v \<and> \<not> hasFailures v))"
  by (auto simp: handleApprove_def)

text \<open>
  C2. An approval attempt always returns a state. With a Fail entry it only adds the
  out-of-tolerance notice; with no Fail entry but a Pending one (equivalently, on a
  list whose statuses are the computed ones, an entry without actual value) it only
  adds the not-all-inspected notice; the two notices differ. In both cases the release
  flag keeps its value, so an unreleased lot stays unreleased. From an unreleased lot
  the attempt releases exactly when every entry has an actual value and none is Fail.
\<close>

theorem handleApprove_guards:
  "(list_ex (\<lambda>s. status s = Fail) (specs v) \<longrightarrow>
      handleApprove t v = v\<lparr>toasts := toasts v @ [failures_toast], confirmDialog := None\<rparr>)
   \<and> (list_all spec_consistent (specs v)
       \<and> \<not> list_ex (\<lambda>s. status s = Fail) (specs v)
       \<and> list_ex (\<lambda>s. status s = Pending) (specs v) \<longrightarrow>
      handleApprove t v = v\<lparr>toasts := toasts v @ [incomplete_toast], confirmDialog := None\<rparr>)
   \<and> (\<not> list_ex (\<lambda>s. status s = Fail) (specs v)
       \<and> list_ex (\<lambda>s. actual s = None) (specs v) \<longrightarrow>
      handleApprove t v = v\<lparr>toasts := toasts v @ [incomplete_toast], confirmDialog := None\<rparr>)
   \<and> failures_toast \<noteq> incomplete_toast
   \<and> (\<not> lotReleased v \<longrightarrow>
        lotReleased (handleApprove t v)
          = (list_all (\<lambda>s. actual s \<noteq> None) (specs v)
             \<and> \<not> list_ex (\<lambda>s. status s = Fail) (specs v)))
   \<and> lotRejected (handleApprove t v) = lotRejected v
   \<and> specs (handleApprove t v) = specs v"
proof -
  have 1: "list_ex (\<lambda>s. status s = Fail) (specs v) \<Longrightarrow>
      handleApprove t v = v\<lparr>toasts := toasts v @ [failures_toast], confirmDialog := None\<rparr>"
    using handleApprove_failures [of v t] by (simp add: hasFailures_def)
  have 2: "handleApprove t v = v\<lparr>toasts := toasts v @ [incomplete_toast], confirmDialog := None\<rparr>"
    if "list_all spec_consistent (specs v)" "\<not> list_ex (\<lambda>s. status s = Fail) (specs v)"
      "list_ex (\<lambda>s. status s = Pending) (specs v)"
    using that handleApprove_incomplete [of v t] allInspected_iff_no_pending [of v]
    by (simp add: hasFailures_def)
  have 3: "handleApprove t v = v\<lparr>toasts := toasts v @ [incomplete_toast], confirmDialog := None\<rparr>"
    if "\<not> list_ex (\<lambda>s. status s = Fail) (specs v)" "list_ex (\<lambda>s. actual s = None) (specs v)"
    using that handleApprove_incomplete [of v t]
    by (auto simp: hasFailures_def allInspected_def list_all_iff list_ex_iff)
  have 4: "failures_toast \<noteq> incomplete_toast"
    by (simp add: failures_toast_def incomplete_toast_def)
  have 5: "\<not> lotReleased v \<Longrightarrow> lotReleased (handleApprove t v)
          = (list_all (\<lambda>s. actual s \<noteq> None) (specs v)
             \<and> \<not> list_ex (\<lambda>s. status s = Fail) (specs v))"
    by (simp add: handleApprove_released hasFailures_def allInspected_def)
  have 6: "lotRejected (handleApprove t v) = lotRejected v \<and> specs (handleApprove t v) = specs v"
    by (simp add: handleApprove_def)
  from 1 2 3 4 5 6 show ?thesis by blast
qed

theorem handleApprove_guards_witness:
  "handleApprove False
     (updateSpec 1 (Some (Fin (6 / 10))) (InspectorView (useInspection INITIAL_SPECS) False))
   = (updateSpec 1 (Some (Fin (6 / 10))) (InspectorView (useInspection INITIAL_SPECS) False))
       \<lparr>toasts := [failures_toast], confirmDialog := None\<rparr>
   \<and> handleApprove False (InspectorView (useInspection INITIAL_SPECS) False)
   = (InspectorView (useInspection INITIAL_SPECS) False)
       \<lparr>toasts := [incomplete_toast], confirmDialog := None\<rparr>
   \<and> lotReleased (handleApprove False
        (updateSpec 1 (Some (Fin (1 / 2))) (InspectorView (useInspection [hd INITIAL_SPECS]) False)))"
proof -
  let ?bad = "updateSpec 1 (Some (Fin (6 / 10))) (InspectorView (useInspection INITIAL_SPECS) False)"
  let ?new = "InspectorView (useInspection INITIAL_SPECS) False"
  let ?good = "updateSpec 1 (Some (Fin (1 / 2)))
                 (InspectorView (useInspection [hd INITIAL_SPECS]) False)"
  have bad: "list_ex (\<lambda>s. status s = Fail) (specs ?bad)" "toasts ?bad = []"
    by (simp_all add: updateSpec_def updateSpec_entry_def InspectorView_def useInspection_def
        INITIAL_SPECS_def calculateStatus_def)
  have new: "list_all spec_consistent (specs ?new)"
    "\<not> list_ex (\<lambda>s. status s = Fail) (specs ?new)"
    "list_ex (\<lambda>s. status s = Pending) (specs ?new)" "toasts ?new = []"
    by (simp_all add: InspectorView_def useInspection_def INITIAL_SPECS_def spec_consistent_def
        calculateStatus_def)
  have good: "\<not> lotReleased ?good" "list_all (\<lambda>s. actual s \<noteq> None) (specs ?good)"
    "\<not> list_ex (\<lambda>s. status s = Fail) (specs ?good)"
    by (simp_all add: updateSpec_def updateSpec_entry_def InspectorView_def useInspection_def
        INITIAL_SPECS_def calculateStatus_def)
  from handleApprove_guards [of ?bad False] bad
  have a: "handleApprove False ?bad = ?bad\<lparr>toasts := [failures_toast], confirmDialog := None\<rparr>"
    by simp
  from handleApprove_guards [of ?new False] new
  have b: "handleApprove False ?new = ?new\<lparr>toasts := [incomplete_toast], confirmDialog := None\<rparr>"
    by simp
  from handleApprove_guards [of ?good False] good
  have c: "lotReleased (handleApprove False ?good)"
    by blast
  from a b c show ?thesis by blast
qed

text \<open>
  C9. When both guards hold and the certificate generator throws, the approval still
  sets \<open>lotReleased\<close>; the only notice added is the certificate error, which is not the
  approval notice; the rejection flag and the readings are untouched. Whatever the
  generator does, an approval attempt calls it once when it releases the lot and not at
  all when it is turned down.
\<close>

theorem certificate_failure_releases:
  "(\<not> hasFailures v \<and> allInspected v \<longrightarrow>
      lotReleased (handleApprove True v)
      \<and> toasts (handleApprove True v) = toasts v @ [certificate_error_toast]
      \<and> lotRejected (handleApprove True v) = lotRejected v
      \<and> specs (handleApprove True v) = specs v
      \<and> lotReleased (handleApprove False v)
      \<and> toasts (handleApprove False v) = toasts v @ [approved_toast])
   \<and> certificate_error_toast \<noteq> approved_toast
   \<and> certificateCalls (handleApprove t v)
       = certificateCalls v + (if \<not> hasFailures v \<and> allInspected v then 1 else 0)"
  by (simp add: handleApprove_def certificate_error_toast_def approved_toast_def)

theorem certificate_failure_releases_witness:
  "lotReleased (handleApprove True
        (updateSpec 1 (Some (Fin (1 / 2))) (InspectorView (useInspection [hd INITIAL_SPECS]) False)))
   \<and> toasts (handleApprove True
        (updateSpec 1 (Some (Fin (1 / 2))) (InspectorView (useInspection [hd INITIAL_SPECS]) False)))
      = [certificate_error_toast]
   \<and> certificateCalls (handleApprove True
        (updateSpec 1 (Some (Fin (1 / 2))) (InspectorView (useInspection [hd INITIAL_SPECS]) False)))
      = 1"
proof -
  let ?good = "updateSpec 1 (Some (Fin (1 / 2)))
                 (InspectorView (useInspection [hd INITIAL_SPECS]) False)"
  have good: "\<not> hasFailures ?good" "allInspected ?good" "toasts ?good = []"
    "certificateCalls ?good = 0"
    by (simp_all add: updateSpec_def updateSpec_entry_def InspectorView_def useInspection_def
        INITIAL_SPECS_def calculateStatus_def hasFailures_def allInspected_def)
  from certificate_failure_releases [of ?good True] good show ?thesis by simp
qed

text \<open>
  C3. On an empty specification list the hook's \<open>allPassed\<close> is false. The view does not
  use it: its own guards, a \<open>some\<close> and an \<open>every\<close> over the list, both let the empty
  list through, so opening the dialog and confirming releases a lot with no
  specification and generates a certificate.
\<close>

theorem empty_list_released:
  "\<not> allPassed (useInspection [])
   \<and> \<not> lotReleased (InspectorView (useInspection []) False)
   \<and> map_option (\<lambda>v. (lotReleased v, certificateCalls v))
        (run (\<lambda>_. NaN) [ClickApprove, ConfirmApproval False]
           (InspectorView (useInspection []) False)) = Some (True, 1)"
  by (simp add: allPassed_def passCount_def useInspection_def InspectorView_def
      handleApprove_def hasFailures_def allInspected_def)

section \<open>Properties of the lot disposition\<close>

lemma disposition_inv_init: "disposition_inv (InspectorView (useInspection init) ro)"
  by (simp add: disposition_inv_def InspectorView_def useInspection_def)

lemma disposition_inv_step:
  "disposition_inv v \<Longrightarrow> inspector_step pf e v = Some v' \<Longrightarrow> disposition_inv v'"
  by (cases e)
    (auto simp: disposition_inv_def handleApprove_def handleReject_def handleActualChange_def
      updateSpec_def resetSpecs_def split: if_splits)

lemma disposition_inv_run:
  "disposition_inv v \<Longrightarrow> run pf es v = Some v' \<Longrightarrow> disposition_inv v'"
proof (induction es arbitrary: v)
  case Nil
  then show ?case by simp
next
  case (Cons e es)
  then obtain w where w: "inspector_step pf e v = Some w" and r: "run pf es w = Some v'"
    by (auto split: option.splits)
  from Cons.prems(1) w have "disposition_inv w" by (rule disposition_inv_step)
  with r show ?case by (rule Cons.IH [rotated])
qed

lemma step_keeps_flags:
  "inspector_step pf e w = Some w' \<Longrightarrow> e \<noteq> ResetSpecs \<Longrightarrow>
   (lotReleased w \<longrightarrow> lotReleased w') \<and> (lotRejected w \<longrightarrow> lotRejected w')"
  by (cases e)
    (auto simp: handleApprove_def handleReject_def handleActualChange_def updateSpec_def
      split: if_splits)

text \<open>
  The handlers themselves do not look at the other flag; the exclusion rests on what
  the view renders.
\<close>

lemma handleReject_ungated:
  "lotReleased v \<Longrightarrow> lotReleased (handleReject v) \<and> lotRejected (handleReject v)"
  by (simp add: handleReject_def)

text \<open>
  C4. From the initial state of the view (both flags false), after any sequence of
  user actions the view offers (opening and closing the dialog, confirming an approval
  or a rejection, entering a reading, resetting), \<open>lotReleased\<close> and \<open>lotRejected\<close> are
  not both true. Every action other than the reset keeps a flag that is set; the reset
  is always available and clears both.
\<close>

theorem disposition_exclusive:
  "(run pf es (InspectorView (useInspection init) ro) = Some v
      \<longrightarrow> \<not> (lotReleased v \<and> lotRejected v))
   \<and> (inspector_step pf e w = Some w' \<and> e \<noteq> ResetSpecs
      \<longrightarrow> (lotReleased w \<longrightarrow> lotReleased w') \<and> (lotRejected w \<longrightarrow> lotRejected w'))
   \<and> \<not> lotReleased (resetSpecs w) \<and> \<not> lotRejected (resetSpecs w)
   \<and> inspector_step pf ResetSpecs w = Some (resetSpecs w)"
proof -
  have "\<not> (lotReleased v \<and> lotRejected v)"
    if "run pf es (InspectorView (useInspection init) ro) = Some v"
    using disposition_inv_run [OF disposition_inv_init that] by (simp add: disposition_inv_def)
  moreover have "\<not> lotReleased (resetSpecs w) \<and> \<not> lotRejected (resetSpecs w)"
    by (simp add: resetSpecs_def)
  ultimately show ?thesis
    using step_keeps_flags [of pf e w w'] by auto
qed

theorem disposition_exclusive_witness:
  "\<exists>v. run (\<lambda>_. Fin (1 / 2))
         [ActualChange 1 ''0.5'', ClickReject, CloseDialog, ClickApprove, ConfirmApproval False]
         (InspectorView (useInspection [hd INITIAL_SPECS]) False) = Some v
       \<and> lotReleased v \<and> \<not> lotRejected v"
proof -
  let ?es = "[ActualChange 1 ''0.5'', ClickReject, CloseDialog, ClickApprove,
              ConfirmApproval False]"
  let ?r = "run (\<lambda>_. Fin (1 / 2)) ?es (InspectorView (useInspection [hd INITIAL_SPECS]) False)"
  have "map_option lotReleased ?r = Some True"
    by (simp add: InspectorView_def useInspection_def INITIAL_SPECS_def handleActualChange_def
        updateSpec_def updateSpec_entry_def calculateStatus_def handleApprove_def
        hasFailures_def allInspected_def)
  then obtain v where v: "?r = Some v" "lotReleased v" by auto
  from disposition_exclusive
    [of "\<lambda>_. Fin (1 / 2)" ?es "[hd INITIAL_SPECS]" False v ClickApprove v v] v
  have "\<not> lotRejected v" by blast
  with v show ?thesis by blast
qed

section \<open>Properties of the dynamic field validator\<close>

text \<open>What the numeric validator does on every present value: it fails a value that
  compares below a defined minimum or above a defined maximum, and passes any other.\<close>

lemma validateNumericField_Some:
  "validateNumericField (Some x) mn mx =
     (if (\<exists>lo. mn = Some lo \<and> js_lt x lo) \<or> (\<exists>hi. mx = Some hi \<and> js_gt x hi)
      then Fail else Pass)"
  by (auto simp: validateNumericField_def split: option.splits)

text \<open>
  Away from NaN the two negated comparisons are the two inclusive bounds: an absent
  value is Pending, and a present value that is not NaN, against bounds of which none
  is NaN, is Pass iff (min is undefined or value \<open>\<ge>\<close> min) and (max is undefined or
  value \<open>\<le>\<close> max), and Fail otherwise.
\<close>

lemma validateNumericField_None: "validateNumericField None mn mx = Pending"
  by (simp add: validateNumericField_def)

lemma validateNumericField_ordinary:
  assumes "x \<noteq> NaN" "mn \<noteq> Some NaN" "mx \<noteq> Some NaN"
  shows "validateNumericField (Some x) mn mx =
     (if (case mn of None \<Rightarrow> True | Some lo \<Rightarrow> js_ge x lo)
         \<and> (case mx of None \<Rightarrow> True | Some hi \<Rightarrow> js_le x hi)
      then Pass else Fail)"
  using assms
  by (cases mn; cases mx)
    (simp_all add: validateNumericField_def js_lt_iff_not_ge js_gt_iff_not_le)

lemma validateNumericField_finite:
  "validateNumericField (Some (Fin a)) None (Some (Fin hi)) = (if a \<le> hi then Pass else Fail)"
  "validateNumericField (Some (Fin a)) (Some (Fin lo)) None = (if lo \<le> a then Pass else Fail)"
  "validateNumericField (Some (Fin a)) (Some (Fin lo)) (Some (Fin hi))
     = (if lo \<le> a \<and> a \<le> hi then Pass else Fail)"
  "validateNumericField (Some (Fin a)) None None = Pass"
  using validateNumericField_ordinary [of "Fin a" None "Some (Fin hi)"]
    validateNumericField_ordinary [of "Fin a" "Some (Fin lo)" None]
    validateNumericField_ordinary [of "Fin a" "Some (Fin lo)" "Some (Fin hi)"]
    validateNumericField_ordinary [of "Fin a" None None]
  by simp_all


text \<open>
  C6. For a select field, any non-empty value is Pass, whether the field is required
  or not. With no value chosen (null or the empty string) the status is Pending, for
  a required field and for an optional one alike. The select validator never answers
  Fail. \<open>updateValue\<close> stores these statuses for a field of type select.
\<close>

theorem validateSelectField_spec:
  "(s \<noteq> [] \<longrightarrow> validateSelectField (Some s) req = Pass)
   \<and> validateSelectField None True = Pending
   \<and> validateSelectField (Some []) True = Pending
   \<and> validateSelectField None False = Pending
   \<and> validateSelectField (Some []) False = Pending
   \<and> validateSelectField v req \<noteq> Fail
   \<and> (field_type field = Select \<longrightarrow>
        fstatus (last (updateValue toNumber fid (JStr s) field vals))
          = (if s = [] then Pending else Pass)
        \<and> fstatus (last (updateValue toNumber fid JNull field vals)) = Pending)"
  by (simp add: validateSelectField_def truthy_string_def updateValue_def as_string_def)

theorem validateSelectField_spec_witness:
  "validateSelectField (Some ''OK'') True = Pass
   \<and> validateSelectField (Some ''OK'') False = Pass
   \<and> map fstatus (updateValue (\<lambda>_. NaN) ''finish'' (JStr ''OK'')
        \<lparr>field_id = ''finish'', field_name = ''Finish'', field_type = Select, required = True,
          field_min = None, field_max = None, options = Some [''OK'', ''NG''],
          field_tool = None\<rparr> []) = [Pass]"
proof -
  let ?f = "\<lparr>field_id = ''finish'', field_name = ''Finish'', field_type = Select,
          required = True, field_min = None, field_max = None,
          options = Some [''OK'', ''NG''], field_tool = None\<rparr>"
  have "length (updateValue (\<lambda>_. NaN) ''finish'' (JStr ''OK'') ?f []) = 1"
    by (simp add: updateValue_def)
  then have "map fstatus (updateValue (\<lambda>_. NaN) ''finish'' (JStr ''OK'') ?f [])
     = [fstatus (last (updateValue (\<lambda>_. NaN) ''finish'' (JStr ''OK'') ?f []))]"
    by (cases "updateValue (\<lambda>_. NaN) ''finish'' (JStr ''OK'') ?f []") auto
  with validateSelectField_spec [of "''OK''" True None ?f "\<lambda>_. NaN" "''finish''" "[]"]
    validateSelectField_spec [of "''OK''" False None ?f "\<lambda>_. NaN" "''finish''" "[]"]
  show ?thesis by simp
qed

lemma updateValue_eq:
  "updateValue t f nv fd vs =
     filter (\<lambda>v. fieldId v \<noteq> f) vs
     @ [\<lparr>fieldId = f, fvalue = nv,
          fstatus = (case field_type fd of
                       Numeric \<Rightarrow> validateNumericField (as_number t nv) (field_min fd) (field_max fd)
                     | Boolean \<Rightarrow> validateBooleanField (as_boolean nv)
                     | Select \<Rightarrow> validateSelectField (as_string nv) (required fd))\<rparr>]"
  by (simp add: updateValue_def Let_def)

lemma updateValue_status_numeric:
  "field_type fd = Numeric \<Longrightarrow>
   fstatus (last (updateValue t f (JNum x) fd vs))
     = validateNumericField (Some x) (field_min fd) (field_max fd)"
  by (simp add: updateValue_eq as_number_def)

lemma updateValue_status_boolean:
  "field_type fd = Boolean \<Longrightarrow>
   fstatus (last (updateValue t f (JBool b) fd vs)) = (if b then Pass else Fail)"
  by (simp add: updateValue_eq as_boolean_def js_truthy_def validateBooleanField_def)

lemma updateValue_status_select:
  "field_type fd = Select \<Longrightarrow>
   fstatus (last (updateValue t f (JStr s) fd vs)) = (if s = [] then Pending else Pass)"
  by (simp add: updateValue_eq as_string_def validateSelectField_def truthy_string_def)

lemma updateValue_status_null:
  "fstatus (last (updateValue t f JNull fd vs)) = Pending"
  by (cases "field_type fd")
    (simp_all add: updateValue_eq as_number_def as_boolean_def as_string_def
      validateNumericField_def validateBooleanField_def validateSelectField_def
      truthy_string_def)

lemma updateValue_shape:
  "butlast (updateValue t f nv fd vs) = filter (\<lambda>v. fieldId v \<noteq> f) vs
   \<and> fieldId (last (updateValue t f nv fd vs)) = f
   \<and> fvalue (last (updateValue t f nv fd vs)) = nv"
  by (simp add: updateValue_def Let_def)

lemma updateValue_idem:
  "updateValue t f nv fd (updateValue t f nv fd vs) = updateValue t f nv fd vs"
  by (simp add: updateValue_def Let_def)

lemma updateValue_once:
  "length (filter (\<lambda>v. fieldId v = f) (updateValue t f nv fd vs)) = 1"
proof -
  have "filter (\<lambda>v. fieldId v = f) (filter (\<lambda>v. fieldId v \<noteq> f) vs) = []"
    by (induction vs) auto
  then show ?thesis by (simp add: updateValue_def Let_def)
qed

lemma updateValue_distinct:
  "distinct (map fieldId vs) \<Longrightarrow> distinct (map fieldId (updateValue t f nv fd vs))"
  by (auto simp: updateValue_def Let_def distinct_map_filter)

lemma edits_distinct:
  "distinct (map fieldId vs) \<Longrightarrow> distinct (map fieldId (edits t es vs))"
proof (induction es arbitrary: vs)
  case Nil
  then show ?case by simp
next
  case (Cons e es)
  obtain f nv fd where e: "e = (f, nv, fd)" by (cases e)
  from Cons.prems have "distinct (map fieldId (updateValue t f nv fd vs))"
    by (rule updateValue_distinct)
  then show ?case unfolding e by (simp add: Cons.IH)
qed

text \<open>
  C7. \<open>updateValue\<close> removes the entries of the edited field and appends a new one: the
  result is the old list without that field, in its old order, followed by an entry
  with the field's id, the new value, and the status that the validator of the field's
  type computes from the new value and the field's definition. Nothing of the replaced
  entry survives, its status included: a numeric field gets the numeric validator's
  answer against the field's bounds, a boolean field Pass for true and Fail for false,
  a select field Pass for a non-empty string and Pending for the empty one, and null is
  Pending for every type. So the list is ordered by last edit, not by field; the edited
  field occurs exactly once; a list without repeated ids stays so, and every list built
  by edits from the initial empty list has each id at most once. Repeating an update
  with the same arguments gives the same list.
\<close>

theorem updateValue_spec:
  "updateValue t f nv fd (updateValue t f nv fd vs) = updateValue t f nv fd vs
   \<and> butlast (updateValue t f nv fd vs) = filter (\<lambda>v. fieldId v \<noteq> f) vs
   \<and> fieldId (last (updateValue t f nv fd vs)) = f
   \<and> fvalue (last (updateValue t f nv fd vs)) = nv
   \<and> updateValue t f nv fd vs \<noteq> []
   \<and> length (filter (\<lambda>v. fieldId v = f) (updateValue t f nv fd vs)) = 1
   \<and> (distinct (map fieldId vs) \<longrightarrow> distinct (map fieldId (updateValue t f nv fd vs)))
   \<and> distinct (map fieldId (edits t es []))
   \<and> updateValue t f nv fd vs =
       filter (\<lambda>v. fieldId v \<noteq> f) vs
       @ [\<lparr>fieldId = f, fvalue = nv,
            fstatus = (case field_type fd of
                         Numeric \<Rightarrow>
                           validateNumericField (as_number t nv) (field_min fd) (field_max fd)
                       | Boolean \<Rightarrow> validateBooleanField (as_boolean nv)
                       | Select \<Rightarrow> validateSelectField (as_string nv) (required fd))\<rparr>]
   \<and> (field_type fd = Numeric \<longrightarrow>
        fstatus (last (updateValue t f (JNum x) fd vs))
          = validateNumericField (Some x) (field_min fd) (field_max fd))
   \<and> (field_type fd = Boolean \<longrightarrow>
        fstatus (last (updateValue t f (JBool b) fd vs)) = (if b then Pass else Fail))
   \<and> (field_type fd = Select \<longrightarrow>
        fstatus (last (updateValue t f (JStr s) fd vs)) = (if s = [] then Pending else Pass))
   \<and> fstatus (last (updateValue t f JNull fd vs)) = Pending"
proof (intro conjI impI, goal_cases)
  case 1
  show ?case by (rule updateValue_idem)
next
  case 2
  show ?case by (simp add: updateValue_shape)
next
  case 3
  show ?case by (simp add: updateValue_shape)
next
  case 4
  show ?case by (simp add: updateValue_shape)
next
  case 5
  show ?case by (simp add: updateValue_eq)
next
  case 6
  show ?case by (rule updateValue_once)
next
  case 7
  then show ?case by (rule updateValue_distinct)
next
  case 8
  show ?case by (rule edits_distinct) simp
next
  case 9
  show ?case by (rule updateValue_eq)
next
  case 10
  then show ?case by (rule updateValue_status_numeric)
next
  case 11
  then show ?case by (rule updateValue_status_boolean)
next
  case 12
  then show ?case by (rule updateValue_status_select)
next
  case 13
  show ?case by (rule updateValue_status_null)
qed

text \<open>
  Two fields, \<open>a\<close> (numeric, at most 1) before \<open>b\<close> (boolean). \<open>a\<close> is edited to 2, then
  \<open>b\<close> to true, then \<open>a\<close> to 0.5: the list ends as \<open>b\<close>, \<open>a\<close>, and the Fail stored for
  the reading 2 gives way to a fresh Pass. Editing \<open>a\<close> to 2 in a list that holds it
  with Pass stores Fail.
\<close>

theorem updateValue_spec_witness:
  "map (\<lambda>v. (fieldId v, fvalue v, fstatus v))
     (edits (\<lambda>_. NaN)
        [(''a'', JNum (Fin 2),
            \<lparr>field_id = ''a'', field_name = ''Radius'', field_type = Numeric, required = True,
             field_min = None, field_max = Some (Fin 1), options = None, field_tool = None\<rparr>)]
        [])
   = [(''a'', JNum (Fin 2), Fail)]
   \<and> map (\<lambda>v. (fieldId v, fvalue v, fstatus v))
     (edits (\<lambda>_. NaN)
        [(''a'', JNum (Fin 2),
            \<lparr>field_id = ''a'', field_name = ''Radius'', field_type = Numeric, required = True,
             field_min = None, field_max = Some (Fin 1), options = None, field_tool = None\<rparr>),
         (''b'', JBool True,
            \<lparr>field_id = ''b'', field_name = ''Visual'', field_type = Boolean, required = True,
             field_min = None, field_max = None, options = None, field_tool = None\<rparr>),
         (''a'', JNum (Fin (1 / 2)),
            \<lparr>field_id = ''a'', field_name = ''Radius'', field_type = Numeric, required = True,
             field_min = None, field_max = Some (Fin 1), options = None, field_tool = None\<rparr>)]
        [])
   = [(''b'', JBool True, Pass), (''a'', JNum (Fin (1 / 2)), Pass)]
   \<and> map (\<lambda>v. (fieldId v, fvalue v, fstatus v))
       (updateValue (\<lambda>_. NaN) ''a'' (JNum (Fin 2))
          \<lparr>field_id = ''a'', field_name = ''Radius'', field_type = Numeric, required = True,
           field_min = None, field_max = Some (Fin 1), options = None, field_tool = None\<rparr>
          [\<lparr>fieldId = ''a'', fvalue = JNum (Fin (1 / 2)), fstatus = Pass\<rparr>,
           \<lparr>fieldId = ''b'', fvalue = JBool True, fstatus = Pass\<rparr>])
     = [(''b'', JBool True, Pass), (''a'', JNum (Fin 2), Fail)]
   \<and> distinct (map fieldId
       (updateValue (\<lambda>_. NaN) ''a'' (JNum (Fin 2))
          \<lparr>field_id = ''a'', field_name = ''Radius'', field_type = Numeric, required = True,
           field_min = None, field_max = Some (Fin 1), options = None, field_tool = None\<rparr>
          [\<lparr>fieldId = ''a'', fvalue = JNum (Fin (1 / 2)), fstatus = Pass\<rparr>,
           \<lparr>fieldId = ''b'', fvalue = JBool True, fstatus = Pass\<rparr>]))"
proof -
  let ?fa = "\<lparr>field_id = ''a'', field_name = ''Radius'', field_type = Numeric, required = True,
           field_min = None, field_max = Some (Fin 1), options = None, field_tool = None\<rparr>"
  let ?fb = "\<lparr>field_id = ''b'', field_name = ''Visual'', field_type = Boolean, required = True,
             field_min = None, field_max = None, options = None, field_tool = None\<rparr>"
  let ?vs = "[\<lparr>fieldId = ''a'', fvalue = JNum (Fin (1 / 2)), fstatus = Pass\<rparr>,
           \<lparr>fieldId = ''b'', fvalue = JBool True, fstatus = Pass\<rparr>]"
  note spec = updateValue_spec
    [of "\<lambda>_. NaN" "''a''" "JNum (Fin 2)" ?fa ?vs "[]" "Fin 2" True "[]"]
  have d: "distinct (map fieldId ?vs)"
    by simp
  have 1: "distinct (map fieldId (updateValue (\<lambda>_. NaN) ''a'' (JNum (Fin 2)) ?fa ?vs))"
    using spec [THEN conjunct2, THEN conjunct2, THEN conjunct2, THEN conjunct2,
        THEN conjunct2, THEN conjunct2, THEN conjunct1, THEN mp, OF d] .
  have 2: "map (\<lambda>v. (fieldId v, fvalue v, fstatus v))
          (updateValue (\<lambda>_. NaN) ''a'' (JNum (Fin 2)) ?fa ?vs)
      = [(''b'', JBool True, Pass), (''a'', JNum (Fin 2), Fail)]"
    by (simp add: updateValue_def validateNumericField_def as_number_def js_gt_def)
  have 3: "map (\<lambda>v. (fieldId v, fvalue v, fstatus v))
     (edits (\<lambda>_. NaN) [(''a'', JNum (Fin 2), ?fa)] []) = [(''a'', JNum (Fin 2), Fail)]"
    by (simp add: updateValue_def validateNumericField_def as_number_def js_gt_def)
  have 4: "map (\<lambda>v. (fieldId v, fvalue v, fstatus v))
     (edits (\<lambda>_. NaN)
        [(''a'', JNum (Fin 2), ?fa), (''b'', JBool True, ?fb), (''a'', JNum (Fin (1 / 2)), ?fa)]
        [])
     = [(''b'', JBool True, Pass), (''a'', JNum (Fin (1 / 2)), Pass)]"
    by (simp add: updateValue_def validateNumericField_def validateBooleanField_def
        as_number_def as_boolean_def js_truthy_def js_gt_def)
  show ?thesis
    by (intro conjI) (rule 3, rule 4, rule 2, rule 1)
qed

end
